theory Spec2Isabelle
  imports Main "HOL-Library.Word" "HOL-Library.Sublist"
begin

section \<open>Data model\<close>

text \<open>
  Go's \<open>int64\<close> is a 64-bit two's complement word: \<open>+\<close> wraps around and the
  comparisons of the source are the signed ones (\<open><s\<close>, \<open>\<le>s\<close>).
\<close>

type_synonym int64 = "64 word"

text \<open>
  A cached payload has the static type \<open>interface{}\<close>. The code only ever looks at its
  dynamic type through the assertions \<open>data.(string)\<close> and \<open>data.(int)\<close>, so a payload is
  the nil interface, a \<open>string\<close>, an \<open>int\<close> (64 bits wide), or a value of any other
  dynamic type, told apart by a tag.
\<close>

datatype val = NilV | StringV string | IntV int64 | OtherV nat

text \<open>\<open>MemoryCacheItem\<close> of \<open>mem_cache.go\<close>.\<close>

record MemoryCacheItem =
  "value" :: val
  expiresAt :: int64

text \<open>
  \<open>MemoryCache\<close> of \<open>mem_cache.go\<close>. The Go map holds pointers to items; a key that is
  missing reads as the nil pointer, and \<open>Put\<close>, the only writer, stores the address of
  a fresh item, so the map is a partial function from keys to items with \<open>None\<close> for
  the nil pointer. The embedded lock has no sequential behaviour and is left out.
\<close>

record MemoryCache =
  store :: "string \<rightharpoonup> MemoryCacheItem"

section \<open>The in-memory driver\<close>

text \<open>The object that \<open>NewMemoryCache\<close> allocates: an empty map.\<close>

definition NewMemoryCache_obj :: MemoryCache where
  "NewMemoryCache_obj = \<lparr>store = Map.empty\<rparr>"

definition MemoryCache_Get :: "MemoryCache \<Rightarrow> string \<Rightarrow> val \<times> bool" where
  "MemoryCache_Get m key =
     (case store m key of
        Some data \<Rightarrow> (value data, True)
      | None \<Rightarrow> (NilV, False))"

text \<open>
  \<open>Put\<close> reads the clock once; \<open>now\<close> is the value \<open>time.Now().Unix()\<close> returns at
  that moment.
\<close>

definition MemoryCache_Put ::
  "MemoryCache \<Rightarrow> string \<Rightarrow> val \<Rightarrow> int64 \<Rightarrow> int64 \<Rightarrow> MemoryCache" where
  "MemoryCache_Put m key data duration now =
     (let d = \<lparr>value = data,
               expiresAt = (if duration <s 1 then 0 else now + duration)\<rparr>
      in m\<lparr>store := (store m)(key \<mapsto> d)\<rparr>)"

definition MemoryCache_Remove :: "MemoryCache \<Rightarrow> string \<Rightarrow> MemoryCache" where
  "MemoryCache_Remove m key = m\<lparr>store := (store m)(key := None)\<rparr>"

definition MemoryCache_Clear :: "MemoryCache \<Rightarrow> MemoryCache" where
  "MemoryCache_Clear m = m\<lparr>store := Map.empty\<rparr>"

subsection \<open>Sequences of driver calls\<close>

text \<open>
  One call of the driver contract on a \<open>MemoryCache\<close>; a \<open>Put\<close> carries the clock
  reading it makes.
\<close>

datatype driver_op =
    GetOp string
  | PutOp string val int64 int64
  | RemoveOp string
  | ClearOp

fun apply_op :: "MemoryCache \<Rightarrow> driver_op \<Rightarrow> MemoryCache" where
  "apply_op m (GetOp key) = m"
| "apply_op m (PutOp key data duration now) = MemoryCache_Put m key data duration now"
| "apply_op m (RemoveOp key) = MemoryCache_Remove m key"
| "apply_op m ClearOp = MemoryCache_Clear m"

fun run_ops :: "MemoryCache \<Rightarrow> driver_op list \<Rightarrow> MemoryCache" where
  "run_ops m [] = m"
| "run_ops m (x # xs) = run_ops (apply_op m x) xs"

text \<open>The calls that can change what is stored under \<open>k\<close>.\<close>

fun writes_key :: "string \<Rightarrow> driver_op \<Rightarrow> bool" where
  "writes_key k (GetOp key) = False"
| "writes_key k (PutOp key data duration now) = (key = k)"
| "writes_key k (RemoveOp key) = (key = k)"
| "writes_key k ClearOp = True"

subsection \<open>When an entry was written\<close>

text \<open>
  The driver does not store the time of a write. To speak about it, the clock reading
  of the \<open>Put\<close> that created each live entry is kept beside the store: \<open>written_at\<close>
  follows one driver call.
\<close>

fun written_at :: "(string \<rightharpoonup> int64) \<Rightarrow> driver_op \<Rightarrow> (string \<rightharpoonup> int64)" where
  "written_at wt (GetOp key) = wt"
| "written_at wt (PutOp key data duration now) = wt(key \<mapsto> now)"
| "written_at wt (RemoveOp key) = wt(key := None)"
| "written_at wt ClearOp = Map.empty"

text \<open>
  The invariant of the data model: every entry has \<open>expiresAt\<close> 0 or an \<open>expiresAt\<close>
  strictly after the time of its write.
\<close>

definition entries_fresh :: "MemoryCache \<Rightarrow> (string \<rightharpoonup> int64) \<Rightarrow> bool" where
  "entries_fresh m wt =
     (\<forall>k e. store m k = Some e \<longrightarrow>
        (\<exists>t. wt k = Some t \<and> (expiresAt e = 0 \<or> t <s expiresAt e)))"

text \<open>The sum \<open>now + duration\<close> of \<open>Put\<close> stays inside the range of \<open>int64\<close>.\<close>

definition add_in_range :: "int64 \<Rightarrow> int64 \<Rightarrow> bool" where
  "add_in_range now duration =
     (- (2 ^ 63) \<le> sint now + sint duration \<and> sint now + sint duration < 2 ^ 63)"

fun op_in_range :: "driver_op \<Rightarrow> bool" where
  "op_in_range (PutOp key data duration now) = (duration <s 1 \<or> add_in_range now duration)"
| "op_in_range (GetOp key) = True"
| "op_in_range (RemoveOp key) = True"
| "op_in_range ClearOp = True"

section \<open>The registry and the facade\<close>

text \<open>
  A \<open>Driver\<close> is an interface value: nil, or a pointer to a driver object. The only
  implementation in the repository is \<open>MemoryCache\<close>, so a driver that is not nil is
  the address of a \<open>MemoryCache\<close> on the heap.
\<close>

type_synonym addr = nat

datatype Driver = NilDriver | MemoryCacheRef addr

text \<open>
  A \<open>panic\<close> with its message, and the run-time panic of Go on a nil pointer or a
  method call through a nil interface.
\<close>

datatype error = Panic string | NilPointerDereference

record Config =
  Driver :: string
  MaxSize :: int
  Address :: string
  Username :: string
  Password :: string
  Use :: bool

text \<open>\<open>Cache\<close>; its \<open>config\<close> is the pointer \<open>New\<close> was given.\<close>

record Cache =
  config :: "Config option"
  driver :: Driver

text \<open>
  The state of the process: the \<open>MemoryCache\<close> objects by address with the next free
  address, and the package variable \<open>drivers\<close>. The record is extensible, so that a
  callback given to \<open>Remember\<close> can have state of its own beside the cache.
\<close>

record world =
  heap :: "addr \<Rightarrow> MemoryCache"
  next_addr :: addr
  drivers :: "string \<rightharpoonup> Driver"

text \<open>
  Every operation returns the panic that ended it, or its result with the state it
  leaves.
\<close>

type_synonym ('r, 'a) result = "error + ('r \<times> 'a world_scheme)"

definition and_then ::
  "('r, 'a) result \<Rightarrow> ('r \<Rightarrow> 'a world_scheme \<Rightarrow> ('q, 'a) result) \<Rightarrow> ('q, 'a) result" where
  "and_then x f = (case x of Inl e \<Rightarrow> Inl e | Inr (r, w) \<Rightarrow> f r w)"

definition NewMemoryCache :: "'a world_scheme \<Rightarrow> Driver \<times> 'a world_scheme" where
  "NewMemoryCache w =
     (MemoryCacheRef (next_addr w),
      w\<lparr>heap := (heap w)(next_addr w := NewMemoryCache_obj),
        next_addr := Suc (next_addr w)\<rparr>)"

text \<open>
  The state after package initialisation: \<open>drivers\<close> holds one \<open>MemoryCache\<close> under
  \<open>memory\<close>.
\<close>

definition init_world :: world where
  "init_world =
     (let (d, w) = NewMemoryCache
            \<lparr>heap = (\<lambda>a. NewMemoryCache_obj), next_addr = 0, drivers = Map.empty\<rparr>
      in w\<lparr>drivers := [''memory'' \<mapsto> d]\<rparr>)"

subsection \<open>Calls through the \<open>Driver\<close> interface\<close>

definition Driver_Get :: "Driver \<Rightarrow> string \<Rightarrow> 'a world_scheme \<Rightarrow> (val \<times> bool, 'a) result" where
  "Driver_Get d key w =
     (case d of
        NilDriver \<Rightarrow> Inl NilPointerDereference
      | MemoryCacheRef a \<Rightarrow> Inr (MemoryCache_Get (heap w a) key, w))"

definition Driver_Put ::
  "Driver \<Rightarrow> string \<Rightarrow> val \<Rightarrow> int64 \<Rightarrow> int64 \<Rightarrow> 'a world_scheme \<Rightarrow> (unit, 'a) result" where
  "Driver_Put d key data expire now w =
     (case d of
        NilDriver \<Rightarrow> Inl NilPointerDereference
      | MemoryCacheRef a \<Rightarrow>
          Inr ((), w\<lparr>heap := (heap w)(a := MemoryCache_Put (heap w a) key data expire now)\<rparr>))"

definition Driver_Remove :: "Driver \<Rightarrow> string \<Rightarrow> 'a world_scheme \<Rightarrow> (unit, 'a) result" where
  "Driver_Remove d key w =
     (case d of
        NilDriver \<Rightarrow> Inl NilPointerDereference
      | MemoryCacheRef a \<Rightarrow>
          Inr ((), w\<lparr>heap := (heap w)(a := MemoryCache_Remove (heap w a) key)\<rparr>))"

definition Driver_Clear :: "Driver \<Rightarrow> 'a world_scheme \<Rightarrow> (unit, 'a) result" where
  "Driver_Clear d w =
     (case d of
        NilDriver \<Rightarrow> Inl NilPointerDereference
      | MemoryCacheRef a \<Rightarrow>
          Inr ((), w\<lparr>heap := (heap w)(a := MemoryCache_Clear (heap w a))\<rparr>))"

subsection \<open>The registry\<close>

definition New :: "Config option \<Rightarrow> 'a world_scheme \<Rightarrow> (Cache, 'a) result" where
  "New cfg w =
     (case cfg of
        None \<Rightarrow> Inl NilPointerDereference
      | Some cf \<Rightarrow>
          (case drivers w (Driver cf) of
             None \<Rightarrow>
               Inl (Panic (''cache: cache provider '' @ Driver cf @ '' is not registered''))
           | Some d \<Rightarrow> Inr (\<lparr>config = cfg, driver = d\<rparr>, w)))"

definition RegisterDriver :: "string \<Rightarrow> Driver \<Rightarrow> 'a world_scheme \<Rightarrow> (unit, 'a) result" where
  "RegisterDriver name d w =
     (if d = NilDriver then Inl (Panic ''cache: driver is nil'')
      else if drivers w name \<noteq> None
        then Inl (Panic (''cache: driver '' @ name @ '' is already registered''))
      else Inr ((), w\<lparr>drivers := (drivers w)(name \<mapsto> d)\<rparr>))"

subsection \<open>The facade\<close>

text \<open>The checked type assertions \<open>data.(string)\<close> and \<open>data.(int)\<close>.\<close>

fun assert_string :: "val \<Rightarrow> string \<times> bool" where
  "assert_string (StringV s) = (s, True)"
| "assert_string v = ([], False)"

fun assert_int :: "val \<Rightarrow> int64 \<times> bool" where
  "assert_int (IntV i) = (i, True)"
| "assert_int v = (0, False)"

definition Cache_Get :: "Cache \<Rightarrow> string \<Rightarrow> 'a world_scheme \<Rightarrow> (val \<times> bool, 'a) result" where
  "Cache_Get c key w = Driver_Get (driver c) key w"

definition Cache_GetString ::
  "Cache \<Rightarrow> string \<Rightarrow> 'a world_scheme \<Rightarrow> (string \<times> bool, 'a) result" where
  "Cache_GetString c key w =
     and_then (Cache_Get c key w) (\<lambda>(data, ok) w1.
       if \<not> ok then Inr (([], False), w1)
       else Inr (assert_string data, w1))"

definition Cache_GetInt ::
  "Cache \<Rightarrow> string \<Rightarrow> 'a world_scheme \<Rightarrow> (int64 \<times> bool, 'a) result" where
  "Cache_GetInt c key w =
     and_then (Cache_Get c key w) (\<lambda>(data, ok) w1.
       if \<not> ok then Inr ((0, False), w1)
       else Inr (assert_int data, w1))"

definition Cache_Put ::
  "Cache \<Rightarrow> string \<Rightarrow> val \<Rightarrow> int64 \<Rightarrow> int64 \<Rightarrow> 'a world_scheme \<Rightarrow> (unit, 'a) result" where
  "Cache_Put c key data duration now w = Driver_Put (driver c) key data duration now w"

definition Cache_PutForever ::
  "Cache \<Rightarrow> string \<Rightarrow> val \<Rightarrow> int64 \<Rightarrow> 'a world_scheme \<Rightarrow> (unit, 'a) result" where
  "Cache_PutForever c key data now w = Driver_Put (driver c) key data 0 now w"

definition Cache_Remove :: "Cache \<Rightarrow> string \<Rightarrow> 'a world_scheme \<Rightarrow> (unit, 'a) result" where
  "Cache_Remove c key w = Driver_Remove (driver c) key w"

definition Cache_Pull :: "Cache \<Rightarrow> string \<Rightarrow> 'a world_scheme \<Rightarrow> (val \<times> bool, 'a) result" where
  "Cache_Pull c key w =
     and_then (Driver_Get (driver c) key w) (\<lambda>(data, ok) w1.
       and_then (Driver_Remove (driver c) key w1) (\<lambda>u w2.
         Inr ((data, ok), w2)))"

definition Cache_PullString ::
  "Cache \<Rightarrow> string \<Rightarrow> 'a world_scheme \<Rightarrow> (string \<times> bool, 'a) result" where
  "Cache_PullString c key w =
     and_then (Cache_GetString c key w) (\<lambda>(data, ok) w1.
       and_then (Driver_Remove (driver c) key w1) (\<lambda>u w2.
         Inr ((data, ok), w2)))"

definition Cache_PullInt ::
  "Cache \<Rightarrow> string \<Rightarrow> 'a world_scheme \<Rightarrow> (int64 \<times> bool, 'a) result" where
  "Cache_PullInt c key w =
     and_then (Cache_GetInt c key w) (\<lambda>(data, ok) w1.
       and_then (Driver_Remove (driver c) key w1) (\<lambda>u w2.
         Inr ((data, ok), w2)))"

text \<open>
  The callback \<open>cb\<close> is any Go function without arguments: it may change the state,
  the cache included, and it may panic. \<open>now\<close> is the clock reading of the \<open>Put\<close>.
\<close>

definition Cache_Remember ::
  "Cache \<Rightarrow> string \<Rightarrow> int64 \<Rightarrow> ('a world_scheme \<Rightarrow> (val, 'a) result) \<Rightarrow> int64 \<Rightarrow>
     'a world_scheme \<Rightarrow> (val, 'a) result" where
  "Cache_Remember c key duration cb now w =
     and_then (Cache_Get c key w) (\<lambda>(data, ok) w1.
       if ok then Inr (data, w1)
       else and_then (cb w1) (\<lambda>data' w2.
              and_then (Cache_Put c key data' duration now w2) (\<lambda>u w3.
                Inr (data', w3))))"

definition Cache_RememberForever ::
  "Cache \<Rightarrow> string \<Rightarrow> ('a world_scheme \<Rightarrow> (val, 'a) result) \<Rightarrow> int64 \<Rightarrow>
     'a world_scheme \<Rightarrow> (val, 'a) result" where
  "Cache_RememberForever c key cb now w = Cache_Remember c key 0 cb now w"

definition Cache_Clear :: "Cache \<Rightarrow> 'a world_scheme \<Rightarrow> (unit, 'a) result" where
  "Cache_Clear c w = Driver_Clear (driver c) w"

section \<open>Properties of the in-memory driver\<close>

lemma apply_op_other_key:
  "\<not> writes_key k x \<Longrightarrow> store (apply_op m x) k = store m k"
  by (cases x)
     (simp_all add: MemoryCache_Put_def MemoryCache_Remove_def Let_def)

lemma run_ops_other_keys:
  "list_all (\<lambda>x. \<not> writes_key k x) xs \<Longrightarrow> store (run_ops m xs) k = store m k"
  by (induction xs arbitrary: m) (simp_all add: apply_op_other_key)

lemma Put_entry:
  "store (MemoryCache_Put m k v d now) k =
     Some \<lparr>value = v, expiresAt = (if d <s 1 then 0 else now + d)\<rparr>"
  by (simp add: MemoryCache_Put_def)

lemma sless_one_iff: "(d <s 1) = (d \<le>s (0::int64))"
  by (simp add: word_sless_alt word_sle_eq) arith

subsection \<open>An entry stored forever stays\<close>

text \<open>
  Claim C1. After \<open>Put(k, v, ttl)\<close> with \<open>ttl \<le> 0\<close>, \<open>Get(k)\<close> returns \<open>(v, true)\<close>, and
  it still does after any sequence of driver calls none of which is \<open>Remove(k)\<close>,
  \<open>Clear()\<close> or a \<open>Put\<close> on \<open>k\<close>: the entry under \<open>k\<close>, value \<open>v\<close> with \<open>expiresAt\<close> 0,
  is left as it was written.
\<close>

theorem Put_forever_then_Get:
  assumes "ttl \<le>s 0"
    and "list_all (\<lambda>x. \<not> writes_key k x) ops"
  shows "store (run_ops (MemoryCache_Put m k v ttl now) ops) k
           = Some \<lparr>value = v, expiresAt = 0\<rparr>
       \<and> MemoryCache_Get (MemoryCache_Put m k v ttl now) k = (v, True)
       \<and> MemoryCache_Get (run_ops (MemoryCache_Put m k v ttl now) ops) k = (v, True)"
proof -
  have e: "store (MemoryCache_Put m k v ttl now) k = Some \<lparr>value = v, expiresAt = 0\<rparr>"
    using assms(1) by (simp add: Put_entry sless_one_iff)
  have r: "store (run_ops (MemoryCache_Put m k v ttl now) ops) k
             = Some \<lparr>value = v, expiresAt = 0\<rparr>"
    using run_ops_other_keys [OF assms(2)] e by simp
  show ?thesis
    using e r by (simp add: MemoryCache_Get_def)
qed

theorem Put_forever_then_Get_witness:
  "(- 5 :: int64) \<le>s 0
   \<and> list_all (\<lambda>x. \<not> writes_key ''a'' x)
        [PutOp ''b'' (StringV ''x'') 5 1700000000, RemoveOp ''b'', GetOp ''a'',
         RemoveOp ''c'']
   \<and> MemoryCache_Get
        (run_ops (MemoryCache_Put NewMemoryCache_obj ''a'' (IntV 42) (- 5) 1700000000)
           [PutOp ''b'' (StringV ''x'') 5 1700000000, RemoveOp ''b'', GetOp ''a'',
            RemoveOp ''c''])
        ''a'' = (IntV 42, True)"
proof -
  have h: "(- 5 :: int64) \<le>s 0"
    by (simp add: word_sle_eq)
  show ?thesis
    using h Put_forever_then_Get [OF h, of "''a''"
      "[PutOp ''b'' (StringV ''x'') 5 1700000000, RemoveOp ''b'', GetOp ''a'', RemoveOp ''c'']"
      NewMemoryCache_obj "IntV 42" 1700000000]
    by simp
qed

subsection \<open>Expiry is not checked on read\<close>

text \<open>
  Claim C2. \<open>Get\<close> of the in-memory driver never looks at \<open>expiresAt\<close>: for an entry
  under \<open>k\<close> with \<open>expiresAt > 0\<close> and a current time after it, \<open>Get(k)\<close> returns the
  stored value with \<open>found = true\<close>, whatever \<open>expiresAt\<close> holds, and it keeps doing so
  through every sequence of driver calls that has no \<open>Put\<close> on \<open>k\<close>, no \<open>Remove(k)\<close>
  and no \<open>Clear()\<close>.
\<close>

theorem Get_ignores_expiry:
  assumes "store m k = Some e"
    and "0 <s expiresAt e"
    and "expiresAt e <s now"
    and "list_all (\<lambda>x. \<not> writes_key k x) ops"
  shows "MemoryCache_Get m k = (value e, True)
       \<and> MemoryCache_Get (m\<lparr>store := (store m)(k \<mapsto> e\<lparr>expiresAt := t\<rparr>)\<rparr>) k
           = (value e, True)
       \<and> MemoryCache_Get (run_ops m ops) k = (value e, True)"
  using assms(1) run_ops_other_keys [OF assms(4), of m]
  by (simp add: MemoryCache_Get_def)

theorem Get_ignores_expiry_witness:
  "store (MemoryCache_Put NewMemoryCache_obj ''b'' (StringV ''x'') 5 1700000000) ''b''
     = Some \<lparr>value = StringV ''x'', expiresAt = 1700000005\<rparr>
   \<and> (0 :: int64) <s 1700000005
   \<and> (1700000005 :: int64) <s 1800000000
   \<and> list_all (\<lambda>x. \<not> writes_key ''b'' x)
        [GetOp ''b'', PutOp ''a'' (IntV 42) 0 1800000000, RemoveOp ''a'']
   \<and> MemoryCache_Get (MemoryCache_Put NewMemoryCache_obj ''b'' (StringV ''x'') 5 1700000000)
        ''b'' = (StringV ''x'', True)
   \<and> MemoryCache_Get
        (run_ops (MemoryCache_Put NewMemoryCache_obj ''b'' (StringV ''x'') 5 1700000000)
           [GetOp ''b'', PutOp ''a'' (IntV 42) 0 1800000000, RemoveOp ''a''])
        ''b'' = (StringV ''x'', True)"
proof -
  have h1: "store (MemoryCache_Put NewMemoryCache_obj ''b'' (StringV ''x'') 5 1700000000) ''b''
              = Some \<lparr>value = StringV ''x'', expiresAt = 1700000005\<rparr>"
    by (simp add: MemoryCache_Put_def word_sless_alt)
  have h2: "(0 :: int64) <s expiresAt \<lparr>value = StringV ''x'', expiresAt = 1700000005\<rparr>"
    by (simp add: word_sless_alt)
  have h3: "expiresAt \<lparr>value = StringV ''x'', expiresAt = 1700000005\<rparr> <s (1800000000 :: int64)"
    by (simp add: word_sless_alt)
  have h4: "list_all (\<lambda>x. \<not> writes_key ''b'' x)
              [GetOp ''b'', PutOp ''a'' (IntV 42) 0 1800000000, RemoveOp ''a'']"
    by simp
  show ?thesis
    using h1 h2 h3 h4 Get_ignores_expiry [OF h1 h2 h3 h4, of 0]
    by simp
qed

subsection \<open>Expiry timestamps\<close>

lemma sint_add_in_range:
  "add_in_range now d \<Longrightarrow> sint (now + d) = sint now + sint d"
  by (simp add: add_in_range_def sint_word_ariths signed_take_bit_int_eq_self)

lemma expiry_after_write:
  assumes "\<not> d <s 1" and "add_in_range now d"
  shows "now <s now + d"
proof -
  have "1 \<le> sint d"
    using assms(1) by (simp add: word_sless_alt)
  then show ?thesis
    using sint_add_in_range [OF assms(2)] by (simp add: word_sless_alt)
qed

lemma Put_keeps_fresh:
  assumes "entries_fresh m wt" and "d <s 1 \<or> add_in_range now d"
  shows "entries_fresh (MemoryCache_Put m k v d now) (wt(k \<mapsto> now))"
proof -
  have new: "(if d <s 1 then 0 else now + d) = 0 \<or> now <s (if d <s 1 then 0 else now + d)"
    using assms(2) expiry_after_write [of d now] by auto
  show ?thesis
    unfolding entries_fresh_def
  proof (intro allI impI)
    fix k' e
    assume s: "store (MemoryCache_Put m k v d now) k' = Some e"
    show "\<exists>t. (wt(k \<mapsto> now)) k' = Some t \<and> (expiresAt e = 0 \<or> t <s expiresAt e)"
    proof (cases "k' = k")
      case True
      then have "expiresAt e = (if d <s 1 then 0 else now + d)"
        using s by (auto simp: Put_entry)
      then show ?thesis
        using True new by simp
    next
      case False
      then have "store m k' = Some e"
        using s by (simp add: MemoryCache_Put_def)
      then show ?thesis
        using assms(1) False by (simp add: entries_fresh_def)
    qed
  qed
qed

lemma apply_op_keeps_fresh:
  "entries_fresh m wt \<Longrightarrow> op_in_range x \<Longrightarrow> entries_fresh (apply_op m x) (written_at wt x)"
proof (cases x)
  case (PutOp k v d now)
  assume "entries_fresh m wt" "op_in_range x"
  then show ?thesis
    using PutOp Put_keeps_fresh [of m wt d now k v] by simp
next
  case (GetOp k)
  assume "entries_fresh m wt"
  then show ?thesis using GetOp by simp
next
  case (RemoveOp k)
  assume "entries_fresh m wt"
  then show ?thesis
    using RemoveOp by (simp add: entries_fresh_def MemoryCache_Remove_def)
next
  case ClearOp
  then show ?thesis
    by (simp add: entries_fresh_def MemoryCache_Clear_def)
qed

lemma run_ops_keeps_fresh:
  "entries_fresh m wt \<Longrightarrow> list_all op_in_range xs \<Longrightarrow>
     entries_fresh (run_ops m xs) (foldl written_at wt xs)"
  by (induction xs arbitrary: m wt) (simp_all add: apply_op_keeps_fresh)

text \<open>
  Claim C6, as the claim states it, fails: the sum \<open>now + ttl\<close> is an \<open>int64\<close> sum and
  wraps around. A \<open>Put\<close> at time 1700000000 with the largest \<open>ttl\<close> stores an
  \<open>expiresAt\<close> that is neither 0 nor after the time of the write.
\<close>

theorem Put_expiry_overflow_counterexample:
  "store (MemoryCache_Put NewMemoryCache_obj ''a'' (IntV 42) 9223372036854775807 1700000000) ''a''
     = Some \<lparr>value = IntV 42, expiresAt = 9223372038554775807\<rparr>
   \<and> (0 :: int64) <s 9223372036854775807
   \<and> (9223372038554775807 :: int64) \<noteq> 0
   \<and> \<not> ((1700000000 :: int64) <s 9223372038554775807)
   \<and> sint (9223372038554775807 :: int64) = - 9223372035154775809"
  by (simp add: MemoryCache_Put_def NewMemoryCache_obj_def word_sless_alt)

text \<open>
  Claim C6, amended. \<open>Put(k, v, ttl)\<close> with \<open>ttl \<le> 0\<close> stores an entry with
  \<open>expiresAt = 0\<close>, and with \<open>ttl > 0\<close> one with \<open>expiresAt = now + ttl\<close> in 64-bit
  wrap-around arithmetic. Where the sum \<open>now + ttl\<close> stays inside the range of \<open>int64\<close>
  it is the exact sum and lies strictly after \<open>now\<close>; and as long as that holds for
  every \<open>Put\<close> with a positive \<open>ttl\<close>, every driver call, and so every sequence of
  them from the empty store, keeps the invariant that each entry's \<open>expiresAt\<close> is 0
  or strictly greater than the time of its write.
\<close>

theorem Put_expiry:
  "(ttl \<le>s 0 \<longrightarrow>
      store (MemoryCache_Put m k v ttl now) k = Some \<lparr>value = v, expiresAt = 0\<rparr>)
   \<and> (0 <s ttl \<longrightarrow>
      store (MemoryCache_Put m k v ttl now) k = Some \<lparr>value = v, expiresAt = now + ttl\<rparr>)
   \<and> (0 <s ttl \<and> add_in_range now ttl \<longrightarrow>
      sint (now + ttl) = sint now + sint ttl \<and> now <s now + ttl)
   \<and> (entries_fresh m wt \<and> op_in_range x \<longrightarrow>
      entries_fresh (apply_op m x) (written_at wt x))
   \<and> (list_all op_in_range xs \<longrightarrow>
      entries_fresh (run_ops NewMemoryCache_obj xs) (foldl written_at Map.empty xs))"
proof -
  have pos: "0 <s ttl \<Longrightarrow> \<not> ttl <s 1"
    by (simp add: word_sless_alt)
  have init: "entries_fresh NewMemoryCache_obj Map.empty"
    by (simp add: entries_fresh_def NewMemoryCache_obj_def)
  show ?thesis
    using pos sint_add_in_range [of now ttl] expiry_after_write [of ttl now]
      apply_op_keeps_fresh [of m wt x] run_ops_keeps_fresh [OF init, of xs]
    by (auto simp: Put_entry sless_one_iff)
qed

theorem Put_expiry_witness:
  "(- 1 :: int64) \<le>s 0 \<and> (0 :: int64) <s 5 \<and> add_in_range 1700000000 5
   \<and> entries_fresh NewMemoryCache_obj Map.empty
   \<and> op_in_range (PutOp ''b'' (StringV ''x'') 5 1700000000)
   \<and> list_all op_in_range [PutOp ''b'' (StringV ''x'') 5 1700000000, RemoveOp ''a'']
   \<and> store (MemoryCache_Put NewMemoryCache_obj ''a'' (IntV 42) (- 1) 1700000000) ''a''
       = Some \<lparr>value = IntV 42, expiresAt = 0\<rparr>
   \<and> store (MemoryCache_Put NewMemoryCache_obj ''b'' (StringV ''x'') 5 1700000000) ''b''
       = Some \<lparr>value = StringV ''x'', expiresAt = 1700000005\<rparr>
   \<and> (1700000000 :: int64) <s 1700000005
   \<and> entries_fresh (apply_op NewMemoryCache_obj (PutOp ''b'' (StringV ''x'') 5 1700000000))
        (written_at Map.empty (PutOp ''b'' (StringV ''x'') 5 1700000000))
   \<and> entries_fresh
        (run_ops NewMemoryCache_obj [PutOp ''b'' (StringV ''x'') 5 1700000000, RemoveOp ''a''])
        (foldl written_at Map.empty [PutOp ''b'' (StringV ''x'') 5 1700000000, RemoveOp ''a''])"
proof -
  have h1: "(- 1 :: int64) \<le>s 0" by (simp add: word_sle_eq)
  have h2: "(0 :: int64) <s 5" by (simp add: word_sless_alt)
  have h3: "add_in_range 1700000000 5" by (simp add: add_in_range_def)
  have h4: "entries_fresh NewMemoryCache_obj Map.empty"
    by (simp add: entries_fresh_def NewMemoryCache_obj_def)
  have h5: "op_in_range (PutOp ''b'' (StringV ''x'') 5 1700000000)"
    using h3 by simp
  have h6: "list_all op_in_range [PutOp ''b'' (StringV ''x'') 5 1700000000, RemoveOp ''a'']"
    using h3 by simp
  show ?thesis
    using h1 h2 h3 h4 h5 h6
      Put_expiry [of "- 1" NewMemoryCache_obj "''a''" "IntV 42" 1700000000 Map.empty
                     "PutOp ''b'' (StringV ''x'') 5 1700000000"
                     "[PutOp ''b'' (StringV ''x'') 5 1700000000, RemoveOp ''a'']"]
      Put_expiry [of 5 NewMemoryCache_obj "''b''" "StringV ''x''" 1700000000 Map.empty
                     "PutOp ''b'' (StringV ''x'') 5 1700000000"
                     "[PutOp ''b'' (StringV ''x'') 5 1700000000, RemoveOp ''a'']"]
    by simp
qed

subsection \<open>Remove and Clear\<close>

text \<open>
  Claim C8. \<open>Remove\<close> and \<open>Clear\<close> are idempotent: \<open>Remove(k)\<close> twice leaves the state
  that one \<open>Remove(k)\<close> leaves, as \<open>Get\<close> sees it on every key \<open>k'\<close> (the two stores
  are the same store), likewise \<open>Clear()\<close> twice, and after \<open>Clear()\<close> every \<open>Get\<close>
  returns not-found.
\<close>

theorem Remove_Clear_idempotent:
  "MemoryCache_Get (MemoryCache_Remove (MemoryCache_Remove m k) k) k'
     = MemoryCache_Get (MemoryCache_Remove m k) k'
   \<and> MemoryCache_Remove (MemoryCache_Remove m k) k = MemoryCache_Remove m k
   \<and> MemoryCache_Get (MemoryCache_Clear (MemoryCache_Clear m)) k'
     = MemoryCache_Get (MemoryCache_Clear m) k'
   \<and> MemoryCache_Clear (MemoryCache_Clear m) = MemoryCache_Clear m
   \<and> MemoryCache_Get (MemoryCache_Clear m) k' = (NilV, False)"
  by (simp add: MemoryCache_Remove_def MemoryCache_Clear_def MemoryCache_Get_def)

subsection \<open>A stored nil\<close>

text \<open>
  Claim C10. The found flag reports that the key is present, not that the value is
  not nil: after \<open>Put(k, nil, ttl)\<close>, \<open>Get(k)\<close> returns \<open>(nil, true)\<close>, while \<open>Get\<close> of a
  key that is absent returns \<open>(nil, false)\<close>; the two results have the same value and
  differ in the flag only.
\<close>

theorem Get_found_is_presence:
  "MemoryCache_Get (MemoryCache_Put m k NilV ttl now) k = (NilV, True)
   \<and> MemoryCache_Get (MemoryCache_Remove m k) k = (NilV, False)
   \<and> fst (MemoryCache_Get (MemoryCache_Put m k NilV ttl now) k)
       = fst (MemoryCache_Get (MemoryCache_Remove m k) k)
   \<and> snd (MemoryCache_Get (MemoryCache_Put m k NilV ttl now) k)
       \<noteq> snd (MemoryCache_Get (MemoryCache_Remove m k) k)"
  by (simp add: MemoryCache_Put_def MemoryCache_Remove_def MemoryCache_Get_def)

section \<open>Properties of the registry and the facade\<close>

lemma Get_after_Remove:
  "MemoryCache_Get (MemoryCache_Remove m k) k = (NilV, False)"
  by (simp add: MemoryCache_Get_def MemoryCache_Remove_def)

lemma Get_after_Put:
  "MemoryCache_Get (MemoryCache_Put m k v d now) k = (v, True)"
  by (simp add: MemoryCache_Get_def MemoryCache_Put_def)

lemma Cache_Get_ref:
  "driver c = MemoryCacheRef a \<Longrightarrow>
     Cache_Get c k w = Inr (MemoryCache_Get (heap w a) k, w)"
  by (simp add: Cache_Get_def Driver_Get_def)

lemma Cache_GetString_ref:
  "driver c = MemoryCacheRef a \<Longrightarrow>
     Cache_GetString c k w =
       Inr (if snd (MemoryCache_Get (heap w a) k)
            then assert_string (fst (MemoryCache_Get (heap w a) k)) else ([], False), w)"
  by (simp add: Cache_GetString_def Cache_Get_ref and_then_def split: prod.splits)

lemma Cache_GetInt_ref:
  "driver c = MemoryCacheRef a \<Longrightarrow>
     Cache_GetInt c k w =
       Inr (if snd (MemoryCache_Get (heap w a) k)
            then assert_int (fst (MemoryCache_Get (heap w a) k)) else (0, False), w)"
  by (simp add: Cache_GetInt_def Cache_Get_ref and_then_def split: prod.splits)

lemma Cache_Put_ref:
  "driver c = MemoryCacheRef a \<Longrightarrow>
     Cache_Put c k v d now w =
       Inr ((), w\<lparr>heap := (heap w)(a := MemoryCache_Put (heap w a) k v d now)\<rparr>)"
  by (simp add: Cache_Put_def Driver_Put_def)

lemma Cache_Get_Inr_ref:
  "Cache_Get c k w = Inr (r, w1) \<Longrightarrow> \<exists>a. driver c = MemoryCacheRef a"
  by (cases "driver c") (simp_all add: Cache_Get_def Driver_Get_def)

lemma init_world_eq:
  "init_world = \<lparr>heap = (\<lambda>a. NewMemoryCache_obj), next_addr = Suc 0,
                  drivers = [''memory'' \<mapsto> MemoryCacheRef 0]\<rparr>"
  by (simp add: init_world_def NewMemoryCache_def fun_upd_idem)

subsection \<open>Pull\<close>

text \<open>
  Claim C3. For a facade bound to a driver, \<open>Pull(k)\<close> returns what \<open>Get(k)\<close> returns
  in the state before it, \<open>PullString(k)\<close> what \<open>GetString(k)\<close> returns and \<open>PullInt(k)\<close>
  what \<open>GetInt(k)\<close> returns, and each of the three leaves the same state, in which \<open>k\<close>
  is absent: \<open>Get(k)\<close> returns not-found there. This holds in every state, whether or
  not \<open>k\<close> was present and whether or not the typed extraction succeeded.
\<close>

theorem Pull_removes_key:
  assumes "driver c = MemoryCacheRef a"
  shows "\<exists>r rs ri w'.
           Cache_Get c k w = Inr (r, w) \<and> Cache_Pull c k w = Inr (r, w')
         \<and> Cache_GetString c k w = Inr (rs, w) \<and> Cache_PullString c k w = Inr (rs, w')
         \<and> Cache_GetInt c k w = Inr (ri, w) \<and> Cache_PullInt c k w = Inr (ri, w')
         \<and> Cache_Get c k w' = Inr ((NilV, False), w')"
proof -
  let ?w = "w\<lparr>heap := (heap w)(a := MemoryCache_Remove (heap w a) k)\<rparr>"
  have rem: "Driver_Remove (driver c) k w = Inr ((), ?w)"
    using assms by (simp add: Driver_Remove_def)
  have p: "Cache_Pull c k w = Inr (MemoryCache_Get (heap w a) k, ?w)"
    using assms rem by (simp add: Cache_Pull_def Driver_Get_def and_then_def split: prod.splits)
  have ps: "Cache_PullString c k w =
      Inr (if snd (MemoryCache_Get (heap w a) k)
            then assert_string (fst (MemoryCache_Get (heap w a) k)) else ([], False), ?w)"
    using rem by (simp add: Cache_PullString_def Cache_GetString_ref [OF assms] and_then_def
        split: prod.splits)
  have pi: "Cache_PullInt c k w =
      Inr (if snd (MemoryCache_Get (heap w a) k)
            then assert_int (fst (MemoryCache_Get (heap w a) k)) else (0, False), ?w)"
    using rem by (simp add: Cache_PullInt_def Cache_GetInt_ref [OF assms] and_then_def
        split: prod.splits)
  have g: "Cache_Get c k ?w = Inr ((NilV, False), ?w)"
    by (simp add: Cache_Get_ref [OF assms] Get_after_Remove)
  show ?thesis
    using p ps pi g Cache_Get_ref [OF assms, of k w] Cache_GetString_ref [OF assms, of k w]
      Cache_GetInt_ref [OF assms, of k w]
    by blast
qed

theorem Pull_removes_key_witness:
  "driver \<lparr>config = None, driver = MemoryCacheRef 0\<rparr> = MemoryCacheRef 0
   \<and> (\<exists>w'. Cache_Pull \<lparr>config = None, driver = MemoryCacheRef 0\<rparr> ''b''
              (init_world\<lparr>heap := (heap init_world)
                 (0 := MemoryCache_Put NewMemoryCache_obj ''b'' (StringV ''x'') 5 1700000000)\<rparr>)
            = Inr ((StringV ''x'', True), w')
          \<and> Cache_PullString \<lparr>config = None, driver = MemoryCacheRef 0\<rparr> ''b''
              (init_world\<lparr>heap := (heap init_world)
                 (0 := MemoryCache_Put NewMemoryCache_obj ''b'' (StringV ''x'') 5 1700000000)\<rparr>)
            = Inr ((''x'', True), w')
          \<and> Cache_PullInt \<lparr>config = None, driver = MemoryCacheRef 0\<rparr> ''b''
              (init_world\<lparr>heap := (heap init_world)
                 (0 := MemoryCache_Put NewMemoryCache_obj ''b'' (StringV ''x'') 5 1700000000)\<rparr>)
            = Inr ((0, False), w')
          \<and> Cache_Get \<lparr>config = None, driver = MemoryCacheRef 0\<rparr> ''b'' w'
            = Inr ((NilV, False), w'))"
proof -
  let ?c = "\<lparr>config = None, driver = MemoryCacheRef 0\<rparr>"
  let ?w = "init_world\<lparr>heap := (heap init_world)
                 (0 := MemoryCache_Put NewMemoryCache_obj ''b'' (StringV ''x'') 5 1700000000)\<rparr>"
  have h: "driver ?c = MemoryCacheRef 0" by simp
  have g: "Cache_Get ?c ''b'' ?w = Inr ((StringV ''x'', True), ?w)"
    by (simp add: Cache_Get_def Driver_Get_def MemoryCache_Get_def MemoryCache_Put_def)
  have gs: "Cache_GetString ?c ''b'' ?w = Inr ((''x'', True), ?w)"
    by (simp add: Cache_GetString_def and_then_def g)
  have gi: "Cache_GetInt ?c ''b'' ?w = Inr ((0, False), ?w)"
    by (simp add: Cache_GetInt_def and_then_def g)
  from Pull_removes_key [OF h, of "''b''" ?w] obtain r rs ri w' where
    p: "Cache_Get ?c ''b'' ?w = Inr (r, ?w)" "Cache_Pull ?c ''b'' ?w = Inr (r, w')"
       "Cache_GetString ?c ''b'' ?w = Inr (rs, ?w)" "Cache_PullString ?c ''b'' ?w = Inr (rs, w')"
       "Cache_GetInt ?c ''b'' ?w = Inr (ri, ?w)" "Cache_PullInt ?c ''b'' ?w = Inr (ri, w')"
       "Cache_Get ?c ''b'' w' = Inr ((NilV, False), w')"
    by blast
  have "r = (StringV ''x'', True)" "rs = (''x'', True)" "ri = (0, False)"
    using p(1,3,5) g gs gi by simp_all
  then show ?thesis
    using h p(2,4,6,7) by blast
qed

subsection \<open>Typed accessors\<close>

text \<open>
  Claim C5. When the value stored under \<open>k\<close> is not a string, \<open>GetString(k)\<close> returns
  the empty string with \<open>found = false\<close>, and when it is not an int, \<open>GetInt(k)\<close> returns
  0 with \<open>found = false\<close>. That is the result for a key that is missing, it is a
  result and not a panic, and the state, the entry included, is the one before the
  call.
\<close>

theorem typed_Get_mismatch:
  assumes "driver c = MemoryCacheRef a"
    and "store (heap w a) k = Some e"
  shows "((\<forall>s. value e \<noteq> StringV s) \<longrightarrow> Cache_GetString c k w = Inr (([], False), w))
       \<and> ((\<forall>i. value e \<noteq> IntV i) \<longrightarrow> Cache_GetInt c k w = Inr ((0, False), w))
       \<and> (store (heap w a) k' = None \<longrightarrow>
            Cache_GetString c k' w = Inr (([], False), w)
          \<and> Cache_GetInt c k' w = Inr ((0, False), w))"
proof -
  have g: "MemoryCache_Get (heap w a) k = (value e, True)"
    using assms(2) by (simp add: MemoryCache_Get_def)
  have typed: "((\<forall>s. value e \<noteq> StringV s) \<longrightarrow> Cache_GetString c k w = Inr (([], False), w))
       \<and> ((\<forall>i. value e \<noteq> IntV i) \<longrightarrow> Cache_GetInt c k w = Inr ((0, False), w))"
    unfolding Cache_GetString_ref [OF assms(1)] Cache_GetInt_ref [OF assms(1)] g
    by (cases "value e") simp_all
  have miss: "store (heap w a) k' = None \<longrightarrow>
            Cache_GetString c k' w = Inr (([], False), w)
          \<and> Cache_GetInt c k' w = Inr ((0, False), w)"
    by (simp add: Cache_GetString_ref [OF assms(1)] Cache_GetInt_ref [OF assms(1)]
        MemoryCache_Get_def)
  show ?thesis
    using typed miss by blast
qed

theorem typed_Get_mismatch_witness:
  "(let c = \<lparr>config = None, driver = MemoryCacheRef 0\<rparr>;
        w = init_world\<lparr>heap := (heap init_world)
              (0 := \<lparr>store = [''a'' \<mapsto> \<lparr>value = IntV 42, expiresAt = 0\<rparr>,
                               ''b'' \<mapsto> \<lparr>value = StringV ''x'', expiresAt = 0\<rparr>]\<rparr>)\<rparr>
    in driver c = MemoryCacheRef 0
     \<and> store (heap w 0) ''a'' = Some \<lparr>value = IntV 42, expiresAt = 0\<rparr>
     \<and> store (heap w 0) ''b'' = Some \<lparr>value = StringV ''x'', expiresAt = 0\<rparr>
     \<and> store (heap w 0) ''z'' = None
     \<and> (\<forall>s. value \<lparr>value = IntV 42, expiresAt = 0\<rparr> \<noteq> StringV s)
     \<and> (\<forall>i. value \<lparr>value = StringV ''x'', expiresAt = 0\<rparr> \<noteq> IntV i)
     \<and> Cache_GetString c ''a'' w = Inr (([], False), w)
     \<and> Cache_GetInt c ''b'' w = Inr ((0, False), w)
     \<and> Cache_GetString c ''z'' w = Inr (([], False), w)
     \<and> Cache_GetInt c ''z'' w = Inr ((0, False), w))"
proof -
  let ?c = "\<lparr>config = None, driver = MemoryCacheRef 0\<rparr>"
  let ?w = "init_world\<lparr>heap := (heap init_world)
        (0 := \<lparr>store = [''a'' \<mapsto> \<lparr>value = IntV 42, expiresAt = 0\<rparr>,
                         ''b'' \<mapsto> \<lparr>value = StringV ''x'', expiresAt = 0\<rparr>]\<rparr>)\<rparr>"
  have h1: "driver ?c = MemoryCacheRef 0" by simp
  have h2: "store (heap ?w 0) ''a'' = Some \<lparr>value = IntV 42, expiresAt = 0\<rparr>" by simp
  have h3: "store (heap ?w 0) ''b'' = Some \<lparr>value = StringV ''x'', expiresAt = 0\<rparr>" by simp
  have h4: "store (heap ?w 0) ''z'' = None" by simp
  have h5: "\<forall>s. value \<lparr>value = IntV 42, expiresAt = 0\<rparr> \<noteq> StringV s" by simp
  have h6: "\<forall>i. value \<lparr>value = StringV ''x'', expiresAt = 0\<rparr> \<noteq> IntV i" by simp
  show ?thesis
    unfolding Let_def
    using h1 h2 h3 h4 h5 h6
      typed_Get_mismatch [OF h1 h2, of "''z''"] typed_Get_mismatch [OF h1 h3, of "''z''"]
    by blast
qed

subsection \<open>Remember\<close>

text \<open>
  Claim C4. If \<open>Get(k)\<close> finds a value, \<open>Remember(k, d, compute)\<close> returns it and
  leaves the state \<open>Get\<close> left, whatever \<open>compute\<close> is: \<open>compute\<close> is not run.
  Otherwise, when \<open>compute\<close> returns \<open>v\<close>, \<open>Remember\<close> returns \<open>v\<close> in the state that
  \<open>Put(k, v, d)\<close> makes of the state one run of \<open>compute\<close> left, and \<open>Get(k)\<close> returns
  \<open>(v, true)\<close> there. \<open>RememberForever(k, compute)\<close> is \<open>Remember(k, 0, compute)\<close>.
\<close>

theorem Remember_computes_if_absent:
  "(Cache_Get c k w = Inr ((v0, True), w1) \<longrightarrow>
      Cache_Remember c k d cb now w = Inr (v0, w1))
   \<and> (Cache_Get c k w = Inr ((v0, False), w1) \<and> cb w1 = Inr (v, w2) \<longrightarrow>
        (\<exists>w3. Cache_Put c k v d now w2 = Inr ((), w3)
            \<and> Cache_Remember c k d cb now w = Inr (v, w3)
            \<and> Cache_Get c k w3 = Inr ((v, True), w3)))
   \<and> Cache_RememberForever c k cb now w = Cache_Remember c k 0 cb now w"
proof (intro conjI impI)
  assume "Cache_Get c k w = Inr ((v0, True), w1)"
  then show "Cache_Remember c k d cb now w = Inr (v0, w1)"
    by (simp add: Cache_Remember_def and_then_def)
next
  assume h: "Cache_Get c k w = Inr ((v0, False), w1) \<and> cb w1 = Inr (v, w2)"
  then obtain a where a: "driver c = MemoryCacheRef a"
    using Cache_Get_Inr_ref by blast
  let ?w3 = "w2\<lparr>heap := (heap w2)(a := MemoryCache_Put (heap w2 a) k v d now)\<rparr>"
  have p: "Cache_Put c k v d now w2 = Inr ((), ?w3)"
    by (rule Cache_Put_ref [OF a])
  have r: "Cache_Remember c k d cb now w = Inr (v, ?w3)"
    using h p by (simp add: Cache_Remember_def and_then_def)
  have g: "Cache_Get c k ?w3 = Inr ((v, True), ?w3)"
    by (simp add: Cache_Get_ref [OF a] Get_after_Put)
  show "\<exists>w3. Cache_Put c k v d now w2 = Inr ((), w3)
            \<and> Cache_Remember c k d cb now w = Inr (v, w3)
            \<and> Cache_Get c k w3 = Inr ((v, True), w3)"
    using p r g by blast
next
  show "Cache_RememberForever c k cb now w = Cache_Remember c k 0 cb now w"
    by (simp add: Cache_RememberForever_def)
qed

text \<open>
  The instance counts the runs of the callback in the extension of the state: one run
  on the miss, none on the hit that follows.
\<close>

theorem Remember_computes_if_absent_witness:
  "(let c = \<lparr>config = None, driver = MemoryCacheRef 0\<rparr>;
        w0 = \<lparr>heap = (\<lambda>a. NewMemoryCache_obj), next_addr = 1,
               drivers = [''memory'' \<mapsto> MemoryCacheRef 0], \<dots> = (0 :: nat)\<rparr>;
        cb = (\<lambda>w. Inr (IntV 7, world.more_update Suc w))
    in Cache_Get c ''k'' w0 = Inr ((NilV, False), w0)
     \<and> cb w0 = Inr (IntV 7, world.more_update Suc w0)
     \<and> (\<exists>w3. Cache_Put c ''k'' (IntV 7) 5 1700000000 (world.more_update Suc w0) = Inr ((), w3)
           \<and> Cache_Remember c ''k'' 5 cb 1700000000 w0 = Inr (IntV 7, w3)
           \<and> world.more w3 = 1
           \<and> Cache_Get c ''k'' w3 = Inr ((IntV 7, True), w3)
           \<and> Cache_Remember c ''k'' 5 cb 1700000009 w3 = Inr (IntV 7, w3)
           \<and> Cache_RememberForever c ''k'' cb 1700000009 w3
               = Cache_Remember c ''k'' 0 cb 1700000009 w3))"
proof -
  let ?c = "\<lparr>config = None, driver = MemoryCacheRef 0\<rparr>"
  let ?w0 = "\<lparr>heap = (\<lambda>a. NewMemoryCache_obj), next_addr = 1,
               drivers = [''memory'' \<mapsto> MemoryCacheRef 0], \<dots> = (0 :: nat)\<rparr>"
  let ?cb = "\<lambda>w :: nat world_scheme. (Inr (IntV 7, world.more_update Suc w) :: (val, nat) result)"
  have h1: "Cache_Get ?c ''k'' ?w0 = Inr ((NilV, False), ?w0)"
    by (simp add: Cache_Get_def Driver_Get_def MemoryCache_Get_def NewMemoryCache_obj_def)
  have h2: "?cb ?w0 = Inr (IntV 7, world.more_update Suc ?w0)"
    by simp
  from Remember_computes_if_absent [of ?c "''k''" ?w0 NilV ?w0 5 ?cb 1700000000 "IntV 7"
      "world.more_update Suc ?w0"] h1 h2
  obtain w3 where
    p: "Cache_Put ?c ''k'' (IntV 7) 5 1700000000 (world.more_update Suc ?w0) = Inr ((), w3)"
    and r: "Cache_Remember ?c ''k'' 5 ?cb 1700000000 ?w0 = Inr (IntV 7, w3)"
    and g: "Cache_Get ?c ''k'' w3 = Inr ((IntV 7, True), w3)"
    by blast
  have m: "world.more w3 = 1"
    using p by (auto simp: Cache_Put_def Driver_Put_def)
  have r2: "Cache_Remember ?c ''k'' 5 ?cb 1700000009 w3 = Inr (IntV 7, w3)"
    using Remember_computes_if_absent [of ?c "''k''" w3 "IntV 7" w3 5 ?cb 1700000009] g
    by blast
  have f: "Cache_RememberForever ?c ''k'' ?cb 1700000009 w3
               = Cache_Remember ?c ''k'' 0 ?cb 1700000009 w3"
    using Remember_computes_if_absent [of ?c "''k''" w3 "IntV 7" w3 5 ?cb 1700000009] 
    by blast
  show ?thesis
    unfolding Let_def using h1 h2 p r m g r2 f by blast
qed

subsection \<open>The registry\<close>

text \<open>
  Claim C7, as the claim states it, fails on the message for a nil driver: it is the
  fixed text \<open>cache: driver is nil\<close>, which does not name the driver being registered.
\<close>

theorem nil_driver_message_counterexample:
  "RegisterDriver ''redis'' NilDriver init_world = Inl (Panic ''cache: driver is nil'')
   \<and> \<not> sublist ''redis'' ''cache: driver is nil''"
  by (simp add: RegisterDriver_def sublist_code)

text \<open>
  Claim C7, amended. The three configuration errors end in a panic, not in a result:
  \<open>New\<close> with a name that is not registered and \<open>RegisterDriver\<close> with a name that is
  registered panic with a message that contains the name; \<open>RegisterDriver\<close> with a
  nil driver panics with the message \<open>cache: driver is nil\<close>, under any name.
  Registering two drivers under two distinct names that are not yet registered
  succeeds twice, after which both names resolve to their drivers; and when \<open>New\<close>
  succeeds, the facade holds the configuration and the driver registered under its
  name, and the state is unchanged.
\<close>

theorem registry_errors:
  "(drivers w (Driver cfg) = None \<longrightarrow>
      New (Some cfg) w
        = Inl (Panic (''cache: cache provider '' @ Driver cfg @ '' is not registered''))
      \<and> sublist (Driver cfg) (''cache: cache provider '' @ Driver cfg @ '' is not registered''))
   \<and> (d \<noteq> NilDriver \<and> drivers w name \<noteq> None \<longrightarrow>
      RegisterDriver name d w
        = Inl (Panic (''cache: driver '' @ name @ '' is already registered''))
      \<and> sublist name (''cache: driver '' @ name @ '' is already registered''))
   \<and> RegisterDriver name NilDriver w = Inl (Panic ''cache: driver is nil'')
   \<and> (d1 \<noteq> NilDriver \<and> d2 \<noteq> NilDriver \<and> n1 \<noteq> n2
        \<and> drivers w n1 = None \<and> drivers w n2 = None \<longrightarrow>
        (\<exists>w1 w2. RegisterDriver n1 d1 w = Inr ((), w1)
               \<and> RegisterDriver n2 d2 w1 = Inr ((), w2)
               \<and> drivers w2 n1 = Some d1 \<and> drivers w2 n2 = Some d2))
   \<and> (New (Some cfg) w = Inr (c, w') \<longrightarrow>
        drivers w (Driver cfg) = Some (driver c) \<and> config c = Some cfg \<and> w' = w)"
proof (intro conjI impI)
  assume "drivers w (Driver cfg) = None"
  then show "New (Some cfg) w
        = Inl (Panic (''cache: cache provider '' @ Driver cfg @ '' is not registered''))"
    by (simp add: New_def)
next
  show "sublist (Driver cfg) (''cache: cache provider '' @ Driver cfg @ '' is not registered'')"
    by (rule sublist_appendI)
next
  assume "d \<noteq> NilDriver \<and> drivers w name \<noteq> None"
  then show "RegisterDriver name d w
        = Inl (Panic (''cache: driver '' @ name @ '' is already registered''))"
    by (auto simp: RegisterDriver_def)
next
  show "sublist name (''cache: driver '' @ name @ '' is already registered'')"
    by (rule sublist_appendI)
next
  show "RegisterDriver name NilDriver w = Inl (Panic ''cache: driver is nil'')"
    by (simp add: RegisterDriver_def)
next
  assume h: "d1 \<noteq> NilDriver \<and> d2 \<noteq> NilDriver \<and> n1 \<noteq> n2
        \<and> drivers w n1 = None \<and> drivers w n2 = None"
  let ?w1 = "w\<lparr>drivers := (drivers w)(n1 \<mapsto> d1)\<rparr>"
  let ?w2 = "?w1\<lparr>drivers := (drivers ?w1)(n2 \<mapsto> d2)\<rparr>"
  have r1: "RegisterDriver n1 d1 w = Inr ((), ?w1)"
    using h by (simp add: RegisterDriver_def)
  have r2: "RegisterDriver n2 d2 ?w1 = Inr ((), ?w2)"
    using h by (auto simp: RegisterDriver_def)
  have "drivers ?w2 n1 = Some d1" "drivers ?w2 n2 = Some d2"
    using h by simp_all
  then show "\<exists>w1 w2. RegisterDriver n1 d1 w = Inr ((), w1)
               \<and> RegisterDriver n2 d2 w1 = Inr ((), w2)
               \<and> drivers w2 n1 = Some d1 \<and> drivers w2 n2 = Some d2"
    using r1 r2 by blast
next
  assume "New (Some cfg) w = Inr (c, w')"
  then show "drivers w (Driver cfg) = Some (driver c)" "config c = Some cfg" "w' = w"
    by (auto simp: New_def split: option.splits)
qed

theorem registry_errors_witness:
  "drivers init_world (Driver \<lparr>Driver = ''redis'', MaxSize = 0, Address = [], Username = [],
                                Password = [], Use = True\<rparr>) = None
   \<and> New (Some \<lparr>Driver = ''redis'', MaxSize = 0, Address = [], Username = [],
                 Password = [], Use = True\<rparr>) init_world
       = Inl (Panic ''cache: cache provider redis is not registered'')
   \<and> sublist ''redis'' ''cache: cache provider redis is not registered''
   \<and> MemoryCacheRef 1 \<noteq> NilDriver \<and> drivers init_world ''memory'' \<noteq> None
   \<and> RegisterDriver ''memory'' (MemoryCacheRef 1) init_world
       = Inl (Panic ''cache: driver memory is already registered'')
   \<and> sublist ''memory'' ''cache: driver memory is already registered''
   \<and> RegisterDriver ''memory'' NilDriver init_world = Inl (Panic ''cache: driver is nil'')
   \<and> MemoryCacheRef 2 \<noteq> NilDriver \<and> ''redis'' \<noteq> ''file''
   \<and> drivers init_world ''redis'' = None \<and> drivers init_world ''file'' = None
   \<and> (\<exists>w1 w2. RegisterDriver ''redis'' (MemoryCacheRef 1) init_world = Inr ((), w1)
             \<and> RegisterDriver ''file'' (MemoryCacheRef 2) w1 = Inr ((), w2)
             \<and> drivers w2 ''redis'' = Some (MemoryCacheRef 1)
             \<and> drivers w2 ''file'' = Some (MemoryCacheRef 2))
   \<and> New (Some \<lparr>Driver = ''memory'', MaxSize = 0, Address = [], Username = [],
                 Password = [], Use = True\<rparr>) init_world
       = Inr (\<lparr>config = Some \<lparr>Driver = ''memory'', MaxSize = 0, Address = [], Username = [],
                                 Password = [], Use = True\<rparr>,
                driver = MemoryCacheRef 0\<rparr>, init_world)
   \<and> drivers init_world ''memory'' = Some (MemoryCacheRef 0)"
proof -
  let ?redis = "\<lparr>Driver = ''redis'', MaxSize = 0, Address = [], Username = [],
                  Password = [], Use = True\<rparr>"
  let ?memory = "\<lparr>Driver = ''memory'', MaxSize = 0, Address = [], Username = [],
                   Password = [], Use = True\<rparr>"
  let ?c = "\<lparr>config = Some ?memory, driver = MemoryCacheRef 0\<rparr>"
  have h1: "drivers init_world (Driver ?redis) = None"
    by (simp add: init_world_eq)
  have h2: "MemoryCacheRef 1 \<noteq> NilDriver \<and> drivers init_world ''memory'' \<noteq> None"
    by (simp add: init_world_eq)
  have h3: "MemoryCacheRef 1 \<noteq> NilDriver \<and> MemoryCacheRef 2 \<noteq> NilDriver \<and> ''redis'' \<noteq> ''file''
        \<and> drivers init_world ''redis'' = None \<and> drivers init_world ''file'' = None"
    by (simp add: init_world_eq)
  have h4: "New (Some ?memory) init_world = Inr (?c, init_world)"
    by (simp add: New_def init_world_eq)
  show ?thesis
    using h1 h2 h3 h4
      registry_errors [of init_world ?redis "MemoryCacheRef 1" "''memory''"
        "MemoryCacheRef 1" "MemoryCacheRef 2" "''redis''" "''file''" ?c init_world]
      registry_errors [of init_world ?memory "MemoryCacheRef 1" "''memory''"
        "MemoryCacheRef 1" "MemoryCacheRef 2" "''redis''" "''file''" ?c init_world]
    by simp
qed

subsection \<open>One driver instance per name\<close>

text \<open>
  Claim C9. Two facades built for the same registered driver name share the driver
  instance and its store: for configurations \<open>cfg1\<close> and \<open>cfg2\<close> with the same
  \<open>Driver\<close> name, \<open>New\<close> changes no state, both facades hold the same driver, and after
  \<open>New(cfg1).Put(k, v, ttl)\<close> the call \<open>New(cfg2).Get(k)\<close> returns \<open>(v, true)\<close>.
\<close>

theorem shared_driver_instance:
  assumes "drivers w (Driver cfg1) = Some (MemoryCacheRef a)"
    and "Driver cfg2 = Driver cfg1"
  shows "\<exists>c1 c2 w'.
           New (Some cfg1) w = Inr (c1, w)
         \<and> Cache_Put c1 k v ttl now w = Inr ((), w')
         \<and> New (Some cfg2) w' = Inr (c2, w')
         \<and> driver c1 = driver c2
         \<and> Cache_Get c2 k w' = Inr ((v, True), w')"
proof -
  let ?c1 = "\<lparr>config = Some cfg1, driver = MemoryCacheRef a\<rparr>"
  let ?c2 = "\<lparr>config = Some cfg2, driver = MemoryCacheRef a\<rparr>"
  let ?w = "w\<lparr>heap := (heap w)(a := MemoryCache_Put (heap w a) k v ttl now)\<rparr>"
  have n1: "New (Some cfg1) w = Inr (?c1, w)"
    using assms(1) by (simp add: New_def)
  have p: "Cache_Put ?c1 k v ttl now w = Inr ((), ?w)"
    by (simp add: Cache_Put_ref)
  have n2: "New (Some cfg2) ?w = Inr (?c2, ?w)"
    using assms by (simp add: New_def)
  have g: "Cache_Get ?c2 k ?w = Inr ((v, True), ?w)"
    by (simp add: Cache_Get_ref Get_after_Put)
  have "driver ?c1 = driver ?c2" by simp
  then show ?thesis
    using n1 p n2 g by blast
qed

theorem shared_driver_instance_witness:
  "drivers init_world (Driver \<lparr>Driver = ''memory'', MaxSize = 10, Address = [], Username = [],
                                Password = [], Use = True\<rparr>) = Some (MemoryCacheRef 0)
   \<and> Driver \<lparr>Driver = ''memory'', MaxSize = 99, Address = ''localhost'', Username = ''u'',
               Password = ''p'', Use = False\<rparr>
     = Driver \<lparr>Driver = ''memory'', MaxSize = 10, Address = [], Username = [],
                 Password = [], Use = True\<rparr>
   \<and> (\<exists>c1 c2 w'.
         New (Some \<lparr>Driver = ''memory'', MaxSize = 10, Address = [], Username = [],
                     Password = [], Use = True\<rparr>) init_world = Inr (c1, init_world)
       \<and> Cache_Put c1 ''a'' (IntV 42) 0 1700000000 init_world = Inr ((), w')
       \<and> New (Some \<lparr>Driver = ''memory'', MaxSize = 99, Address = ''localhost'', Username = ''u'',
                     Password = ''p'', Use = False\<rparr>) w' = Inr (c2, w')
       \<and> driver c1 = driver c2
       \<and> Cache_Get c2 ''a'' w' = Inr ((IntV 42, True), w'))"
proof -
  let ?cfg1 = "\<lparr>Driver = ''memory'', MaxSize = 10, Address = [], Username = [],
                 Password = [], Use = True\<rparr>"
  let ?cfg2 = "\<lparr>Driver = ''memory'', MaxSize = 99, Address = ''localhost'', Username = ''u'',
                 Password = ''p'', Use = False\<rparr>"
  have h1: "drivers init_world (Driver ?cfg1) = Some (MemoryCacheRef 0)"
    by (simp add: init_world_eq)
  have h2: "Driver ?cfg2 = Driver ?cfg1"
    by simp
  show ?thesis
    using h1 h2 shared_driver_instance [OF h1 h2, of "''a''" "IntV 42" 0 1700000000]
    by blast
qed

end
